theory Spec2Isabelle
  imports Main "HOL-Library.Word" "HOL-Library.Sublist"
begin

section \<open>Strings and host values\<close>

text \<open>
  A JavaScript string is a sequence of UTF-16 code units, and \<open>length\<close>, \<open>substring\<close>
  and \<open>===\<close> work on code units. String literals of the source are written with
  \<open>lit\<close> for their ASCII parts and as explicit code units elsewhere.
\<close>

type_synonym code_unit = "16 word"
type_synonym jsstring = "code_unit list"

definition lit :: "string \<Rightarrow> jsstring" where
  "lit s = map of_char s"

text \<open>
  \<open>String.prototype.substring(start, end)\<close> for integer arguments: both ends are clamped
  to \<open>[0, length]\<close> and swapped when \<open>start > end\<close>.
\<close>

definition substring :: "jsstring \<Rightarrow> int \<Rightarrow> int \<Rightarrow> jsstring" where
  "substring s start end' =
     (let len = int (length s);
          finalStart = min (max start 0) len;
          finalEnd = min (max end' 0) len;
          from = min finalStart finalEnd;
          to = max finalStart finalEnd
      in take (nat (to - from)) (drop (nat from) s))"

text \<open>
  The string of an integer number inside a template literal (\<open>${product.id}\<close>,
  \<open>${count}\<close>): its decimal numeral, with a minus sign when negative. (This is what
  Number-to-string conversion gives for every integer of magnitude below \<open>10^21\<close>.)
\<close>

fun digits :: "nat \<Rightarrow> jsstring" where
  "digits n = (if n < 10 then [of_nat (48 + n)]
               else digits (n div 10) @ [of_nat (48 + n mod 10)])"

declare digits.simps [simp del]

definition Number_toString :: "int \<Rightarrow> jsstring" where
  "Number_toString i = (if i < 0 then lit ''-'' @ digits (nat (- i)) else digits (nat i))"

text \<open>
  \<open>new Date(x)\<close> is kept symbolic: the value remembers the argument it was built from
  (\<open>None\<close> for an absent field). No operation of the program reads a date.
\<close>

datatype Date = Date "jsstring option"

text \<open>The exceptions the program can raise: its own \<open>Error\<close> with a message, and the
  engine's \<open>TypeError\<close> (a property read on \<open>undefined\<close>) and \<open>ReferenceError\<close> (an
  undeclared identifier).\<close>

datatype error = Error jsstring | TypeError | ReferenceError


section \<open>Models\<close>

subsection \<open>Raw records\<close>

text \<open>
  The records handed to \<open>loadFromJson\<close>. A field that the code guards against being absent
  (\<open>name\<close>, \<open>description\<close>, \<open>images\<close>), the timestamps and the nested \<open>category\<close> object are
  optional: \<open>None\<close> is JavaScript's \<open>undefined\<close>. The price is a number the program only
  stores and hands to the host's formatter, so its type is left open.
\<close>

record CategoryData =
  dc_id :: int
  dc_name :: "jsstring option"
  dc_slug :: jsstring
  dc_image :: jsstring
  dc_creationAt :: "jsstring option"
  dc_updatedAt :: "jsstring option"

record 'n ProductData =
  d_id :: int
  d_title :: jsstring
  d_slug :: jsstring
  d_price :: 'n
  d_description :: "jsstring option"
  d_category :: "CategoryData option"
  d_images :: "jsstring list option"
  d_creationAt :: "jsstring option"
  d_updatedAt :: "jsstring option"

subsection \<open>Category\<close>

record Category =
  c_id :: int
  c_name :: "jsstring option"
  c_slug :: jsstring
  c_image :: jsstring
  c_creationAt :: Date
  c_updatedAt :: Date

text \<open>\<open>new Category(data)\<close>: reading \<open>data.id\<close> on an absent \<open>data\<close> raises a TypeError.\<close>

definition new_Category :: "CategoryData option \<Rightarrow> error + Category" where
  "new_Category data =
     (case data of
        None \<Rightarrow> Inl TypeError
      | Some d \<Rightarrow>
          Inr \<lparr> c_id = dc_id d, c_name = dc_name d, c_slug = dc_slug d, c_image = dc_image d,
                c_creationAt = Date (dc_creationAt d), c_updatedAt = Date (dc_updatedAt d) \<rparr>)"

text \<open>\<open>this.name || 'Uncategorized'\<close>: an absent and an empty name are both falsy.\<close>

definition getDisplayName :: "Category \<Rightarrow> jsstring" where
  "getDisplayName c =
     (case c_name c of
        None \<Rightarrow> lit ''Uncategorized''
      | Some n \<Rightarrow> if n = [] then lit ''Uncategorized'' else n)"

subsection \<open>Product\<close>

record 'n Product =
  p_id :: int
  p_title :: jsstring
  p_slug :: jsstring
  p_price :: 'n
  p_description :: "jsstring option"
  p_category :: Category
  p_images :: "jsstring list"
  p_creationAt :: Date
  p_updatedAt :: Date

text \<open>\<open>new Product(data)\<close>; \<open>data.images || []\<close> replaces an absent \<open>images\<close> (an array,
  even an empty one, is truthy).\<close>

definition new_Product :: "'n ProductData \<Rightarrow> error + 'n Product" where
  "new_Product data =
     (case new_Category (d_category data) of
        Inl e \<Rightarrow> Inl e
      | Inr cat \<Rightarrow>
          Inr \<lparr> p_id = d_id data, p_title = d_title data, p_slug = d_slug data,
                p_price = d_price data, p_description = d_description data,
                p_category = cat,
                p_images = (case d_images data of None \<Rightarrow> [] | Some imgs \<Rightarrow> imgs),
                p_creationAt = Date (d_creationAt data),
                p_updatedAt = Date (d_updatedAt data) \<rparr>)"

definition placeholderImage :: jsstring where
  "placeholderImage = lit ''https://placehold.co/600x400?text=No+Image''"

text \<open>\<open>this.images[0] || '...'\<close>: \<open>images[0]\<close> is \<open>undefined\<close> on an empty array, and an
  empty string is falsy as well.\<close>

definition getPrimaryImage :: "'n Product \<Rightarrow> jsstring" where
  "getPrimaryImage p =
     (case p_images p of
        [] \<Rightarrow> placeholderImage
      | img # _ \<Rightarrow> if img = [] then placeholderImage else img)"

text \<open>\<open>Intl.NumberFormat('vi-VN', {style: 'currency', currency: 'USD'}).format\<close> is the
  host's; it is passed in as \<open>format\<close>.\<close>

definition getFormattedPrice :: "('n \<Rightarrow> jsstring) \<Rightarrow> 'n Product \<Rightarrow> jsstring" where
  "getFormattedPrice format p = format (p_price p)"

text \<open>\<open>getShortDescription(maxLength = 100)\<close>; the argument is \<open>None\<close> when omitted.\<close>

definition getShortDescription :: "'n Product \<Rightarrow> int option \<Rightarrow> jsstring" where
  "getShortDescription p arg =
     (let maxLength = (case arg of None \<Rightarrow> 100 | Some m \<Rightarrow> m) in
      case p_description p of
        None \<Rightarrow> lit ''No description available''
      | Some description \<Rightarrow>
          if description = [] then lit ''No description available''
          else if int (length description) \<le> maxLength then description
          else substring description 0 maxLength @ lit ''...'')"


section \<open>Service\<close>

text \<open>
  A JavaScript \<open>Map\<close> keeps its entries in insertion order: an association list with one
  entry per key. \<open>set\<close> on a key already present replaces the value in place; on a new key
  it appends the entry.
\<close>

type_synonym ('k, 'v) Map = "('k \<times> 'v) list"

definition Map_has :: "('k, 'v) Map \<Rightarrow> 'k \<Rightarrow> bool" where
  "Map_has m k = (k \<in> set (map fst m))"

definition Map_set :: "('k, 'v) Map \<Rightarrow> 'k \<Rightarrow> 'v \<Rightarrow> ('k, 'v) Map" where
  "Map_set m k v =
     (if Map_has m k then map (\<lambda>(k', v'). if k' = k then (k', v) else (k', v')) m
      else m @ [(k, v)])"

definition Map_values :: "('k, 'v) Map \<Rightarrow> 'v list" where
  "Map_values m = map snd m"

text \<open>\<open>jsonData.map(item => new Product(item))\<close>: the first constructor that raises ends
  the whole \<open>map\<close>.\<close>

fun map_new_Product :: "'n ProductData list \<Rightarrow> error + 'n Product list" where
  "map_new_Product [] = Inr []"
| "map_new_Product (item # rest) =
     (case new_Product item of
        Inl e \<Rightarrow> Inl e
      | Inr p \<Rightarrow> (case map_new_Product rest of Inl e \<Rightarrow> Inl e | Inr ps \<Rightarrow> Inr (p # ps)))"

record 'n ProductService =
  products :: "'n Product list"

definition new_ProductService :: "'n ProductService" where
  "new_ProductService = \<lparr> products = [] \<rparr>"

text \<open>\<open>loadFromJson\<close> returns the service after the call together with the call's result;
  when \<open>map\<close> raises, \<open>this.products\<close> has not been assigned.\<close>

definition loadFromJson ::
  "'n ProductService \<Rightarrow> 'n ProductData list \<Rightarrow> 'n ProductService \<times> (error + 'n Product list)" where
  "loadFromJson this jsonData =
     (case map_new_Product jsonData of
        Inl e \<Rightarrow> (this, Inl e)
      | Inr ps \<Rightarrow> (this \<lparr> products := ps \<rparr>, Inr ps))"

definition getAllProducts :: "'n ProductService \<Rightarrow> 'n Product list" where
  "getAllProducts this = products this"

definition getProductCount :: "'n ProductService \<Rightarrow> nat" where
  "getProductCount this = length (products this)"

definition findById :: "'n ProductService \<Rightarrow> int \<Rightarrow> 'n Product option" where
  "findById this i = find (\<lambda>product. p_id product = i) (products this)"

definition filterByCategory :: "'n ProductService \<Rightarrow> jsstring \<Rightarrow> 'n Product list" where
  "filterByCategory this categorySlug =
     filter (\<lambda>product. c_slug (p_category product) = categorySlug) (products this)"

definition getUniqueCategories :: "'n ProductService \<Rightarrow> Category list" where
  "getUniqueCategories this =
     Map_values
       (foldl (\<lambda>categoryMap product.
                 if \<not> Map_has categoryMap (c_id (p_category product))
                 then Map_set categoryMap (c_id (p_category product)) (p_category product)
                 else categoryMap)
          [] (products this))"


section \<open>Renderer\<close>

subsection \<open>The display surface\<close>

text \<open>
  The host's document: \<open>getElementById\<close> resolves an identifier to an element or to
  \<open>null\<close> (\<open>None\<close>), and every element holds what was last assigned to it, markup through
  \<open>innerHTML\<close> or text through \<open>textContent\<close>. Elements are independent cells, named by
  a reference, so an object obtained once stays usable.
\<close>

datatype content = Markup jsstring | Text jsstring

record Document =
  getElementById :: "jsstring \<Rightarrow> nat option"
  contents :: "nat \<Rightarrow> content"

definition set_innerHTML :: "nat \<Rightarrow> jsstring \<Rightarrow> Document \<Rightarrow> Document" where
  "set_innerHTML el html doc = doc \<lparr> contents := (contents doc)(el := Markup html) \<rparr>"

definition set_textContent :: "nat \<Rightarrow> jsstring \<Rightarrow> Document \<Rightarrow> Document" where
  "set_textContent el txt doc = doc \<lparr> contents := (contents doc)(el := Text txt) \<rparr>"

text \<open>
  Reading \<open>innerHTML\<close> of an element whose only child is a text node serialises the text
  as the HTML standard prescribes for text content: \<open>&\<close>, the no-break space, \<open><\<close> and
  \<open>>\<close> are replaced by \<open>&amp;\<close>, \<open>&nbsp;\<close>, \<open>&lt;\<close> and \<open>&gt;\<close>; every other code unit,
  the quotation marks included, is copied.
\<close>

definition escapeCodeUnit :: "code_unit \<Rightarrow> jsstring" where
  "escapeCodeUnit c =
     (if c = 0x26 then lit ''&amp;''
      else if c = 0xA0 then lit ''&nbsp;''
      else if c = 0x3C then lit ''&lt;''
      else if c = 0x3E then lit ''&gt;''
      else [c])"

definition serializeText :: "jsstring \<Rightarrow> jsstring" where
  "serializeText txt = concat (map escapeCodeUnit txt)"

subsection \<open>ProductRenderer\<close>

record ProductRenderer =
  container :: nat

definition new_ProductRenderer :: "Document \<Rightarrow> jsstring \<Rightarrow> error + ProductRenderer" where
  \<open>new_ProductRenderer doc containerId =
     (case getElementById doc containerId of
        None \<Rightarrow> Inl (Error (lit ''Container with id "'' @ containerId @ lit ''" not found''))
      | Some el \<Rightarrow> Inr \<lparr> container = el \<rparr>)\<close>

text \<open>\<open>escapeHtml\<close>: a fresh \<open>div\<close> gets the string as its text and is read back as
  markup.\<close>

definition escapeHtml :: "jsstring \<Rightarrow> jsstring" where
  "escapeHtml str = (if str = [] then [] else serializeText str)"

definition createProductCardHtml :: "('n \<Rightarrow> jsstring) \<Rightarrow> 'n Product \<Rightarrow> jsstring" where
  \<open>createProductCardHtml format product =
     lit ''\<newline>            <article class="product-card" data-product-id="''
     @ Number_toString (p_id product)
     @ lit ''">\<newline>                <div class="product-card__image-wrapper">\<newline>''
     @ lit ''                    <img \<newline>''
     @ lit ''                        class="product-card__image" \<newline>''
     @ lit ''                        src="''
     @ escapeHtml (getPrimaryImage product)
     @ lit ''" \<newline>                        alt="''
     @ escapeHtml (p_title product)
     @ lit ''"\<newline>                        loading="lazy"\<newline>''
     @ lit ''                        onerror="this.src='https://placehold.co/600x400?text=Error'"\<newline>''
     @ lit ''                    >\<newline>''
     @ lit ''                    <span class="product-card__category">\<newline>''
     @ lit ''                        ''
     @ escapeHtml (getDisplayName (p_category product))
     @ lit ''\<newline>                    </span>\<newline>                </div>\<newline>''
     @ lit ''                <div class="product-card__body">\<newline>''
     @ lit ''                    <h2 class="product-card__title">''
     @ escapeHtml (p_title product)
     @ lit ''</h2>\<newline>                    <p class="product-card__description">''
     @ escapeHtml (getShortDescription product None)
     @ lit ''</p>\<newline>                    <div class="product-card__footer">\<newline>''
     @ lit ''                        <span class="product-card__price">''
     @ getFormattedPrice format product
     @ lit ''</span>\<newline>                        <span class="product-card__id">ID: ''
     @ Number_toString (p_id product)
     @ lit ''</span>\<newline>                    </div>\<newline>                </div>\<newline>''
     @ lit ''            </article>\<newline>        ''\<close>

definition noProductsHtml :: jsstring where
  \<open>noProductsHtml =
     lit ''<p style="text-align: center; color: var(--color-text-muted);">Kh'' @ [0x00F4]
     @ lit ''ng c'' @ [0x00F3] @ lit '' s'' @ [0x1EA3] @ lit ''n ph'' @ [0x1EA9]
     @ lit ''m n'' @ [0x00E0] @ lit ''o</p>''\<close>

definition renderProducts ::
  "('n \<Rightarrow> jsstring) \<Rightarrow> ProductRenderer \<Rightarrow> 'n Product list \<Rightarrow> Document \<Rightarrow> Document" where
  "renderProducts format this prods doc =
     (if length prods = 0 then set_innerHTML (container this) noProductsHtml doc
      else
        let html = concat (map (\<lambda>product. createProductCardHtml format product) prods)
        in set_innerHTML (container this) html doc)"

definition showLoading :: "ProductRenderer \<Rightarrow> Document \<Rightarrow> Document" where
  \<open>showLoading this doc =
     set_innerHTML (container this)
       (lit ''\<newline>            <div class="loading">\<newline>''
        @ lit ''                <div class="loading__spinner"></div>\<newline>''
        @ lit ''            </div>\<newline>        '')
       doc\<close>

definition showError :: "ProductRenderer \<Rightarrow> jsstring \<Rightarrow> Document \<Rightarrow> Document" where
  \<open>showError this message doc =
     set_innerHTML (container this)
       (lit ''\<newline>            <p style="text-align: center; color: var(--color-error); padding: 2rem;">\<newline>''
        @ lit ''                '' @ [0x274C] @ lit '' '' @ escapeHtml message
        @ lit ''\<newline>            </p>\<newline>        '')
       doc\<close>


section \<open>Application controller\<close>

record 'n ProductCatalogApp =
  productService :: "'n ProductService"
  productRenderer :: ProductRenderer
  productCountElement :: "nat option"

definition new_ProductCatalogApp :: "Document \<Rightarrow> error + 'n ProductCatalogApp" where
  "new_ProductCatalogApp doc =
     (case new_ProductRenderer doc (lit ''productGrid'') of
        Inl e \<Rightarrow> Inl e
      | Inr renderer \<Rightarrow>
          Inr \<lparr> productService = new_ProductService,
                productRenderer = renderer,
                productCountElement = getElementById doc (lit ''productCount'') \<rparr>)"

text \<open>
  What the controller runs in: the application object, the document and the console's
  log (the errors handed to \<open>console.error\<close>).
\<close>

record 'n State =
  app :: "'n ProductCatalogApp"
  document :: Document
  console :: "error list"

text \<open>
  The globals \<open>handleError\<close> looks at. \<open>typeof console\<close> never raises. \<open>process\<close> is
  either an undeclared identifier, whose evaluation raises a ReferenceError (optional
  chaining guards against a null value, not against a missing binding), or declared,
  and then \<open>process?.env?.NODE_ENV\<close> has a value (\<open>None\<close> for \<open>undefined\<close>).
\<close>

datatype process_binding = Undeclared | NODE_ENV "jsstring option"

record Env =
  console_defined :: bool
  process :: process_binding

definition updateProductCount :: "'n ProductCatalogApp \<Rightarrow> nat \<Rightarrow> Document \<Rightarrow> Document" where
  "updateProductCount this count doc =
     (case productCountElement this of
        None \<Rightarrow> doc
      | Some el \<Rightarrow>
          set_textContent el
            (Number_toString (int count) @ lit '' s'' @ [0x1EA3] @ lit ''n ph'' @ [0x1EA9] @ lit ''m'')
            doc)"

definition errorMessage :: jsstring where
  "errorMessage =
     lit ''C'' @ [0x00F3] @ lit '' l'' @ [0x1ED7] @ lit ''i x'' @ [0x1EA3] @ lit ''y ra khi t''
     @ [0x1EA3] @ lit ''i d'' @ [0x1EEF] @ lit '' li'' @ [0x1EC7] @ lit ''u s'' @ [0x1EA3]
     @ lit ''n ph'' @ [0x1EA9] @ lit ''m''"

definition handleError :: "Env \<Rightarrow> 'n State \<Rightarrow> error \<Rightarrow> 'n State \<times> (error + unit)" where
  "handleError env st err =
     (let st1 = st \<lparr> document := showError (productRenderer (app st)) errorMessage (document st) \<rparr>
      in if console_defined env then
           (case process env of
              Undeclared \<Rightarrow> (st1, Inl ReferenceError)
            | NODE_ENV v \<Rightarrow>
                if v \<noteq> Some (lit ''production'')
                then (st1 \<lparr> console := console st1 @ [err] \<rparr>, Inr ())
                else (st1, Inr ()))
         else (st1, Inr ()))"

text \<open>\<open>init\<close>, with the module's \<open>PRODUCT_DATA\<close> passed in. The \<open>try\<close> block's only
  statement that can raise is the load.\<close>

definition init ::
  "Env \<Rightarrow> ('n \<Rightarrow> jsstring) \<Rightarrow> 'n ProductData list \<Rightarrow> 'n State \<Rightarrow> 'n State \<times> (error + unit)" where
  "init env format PRODUCT_DATA st =
     (let st1 = st \<lparr> document := showLoading (productRenderer (app st)) (document st) \<rparr> in
      case loadFromJson (productService (app st1)) PRODUCT_DATA of
        (service, Inl err) \<Rightarrow>
          handleError env (st1 \<lparr> app := (app st1) \<lparr> productService := service \<rparr> \<rparr>) err
      | (service, Inr prods) \<Rightarrow>
          let st2 = st1 \<lparr> app := (app st1) \<lparr> productService := service \<rparr> \<rparr>;
              st3 = st2 \<lparr> document := updateProductCount (app st2) (length prods) (document st2) \<rparr>;
              st4 = st3 \<lparr> document := renderProducts format (productRenderer (app st3)) prods (document st3) \<rparr>
          in (st4, Inr ()))"

text \<open>The \<open>DOMContentLoaded\<close> listener: construct the controller, then run it. An
  exception of the constructor leaves the listener before \<open>init\<close> is called.\<close>

definition onDOMContentLoaded ::
  "Env \<Rightarrow> ('n \<Rightarrow> jsstring) \<Rightarrow> 'n ProductData list \<Rightarrow> Document \<times> error list
     \<Rightarrow> (Document \<times> error list) \<times> (error + unit)" where
  "onDOMContentLoaded env format PRODUCT_DATA world =
     (case new_ProductCatalogApp (fst world) of
        Inl e \<Rightarrow> (world, Inl e)
      | Inr a \<Rightarrow>
          let (st, outcome) =
                init env format PRODUCT_DATA \<lparr> app = a, document = fst world, console = snd world \<rparr>
          in ((document st, console st), outcome))"


section \<open>Data\<close>

text \<open>Records of the module's \<open>PRODUCT_DATA\<close> (those with ids 200, 215, 217 and 218),
  with their categories.\<close>

definition category_clothes :: CategoryData where
  "category_clothes =
     \<lparr> dc_id = 1, dc_name = Some (lit ''Clothes''), dc_slug = lit ''clothes'',
       dc_image = lit ''https://i.imgur.com/QkIa5tT.jpeg'',
       dc_creationAt = Some (lit ''2026-01-27T11:46:15.000Z''),
       dc_updatedAt = Some (lit ''2026-01-28T02:54:10.000Z'') \<rparr>"

definition item_200 :: "int ProductData" where
  "item_200 =
     \<lparr> d_id = 200, d_title = lit ''Sweater'', d_slug = lit ''sweater'', d_price = 50,
       d_description = Some (lit ''Test sweater''),
       d_category = Some category_clothes,
       d_images = Some [lit ''https://placehold.co/600x400''],
       d_creationAt = Some (lit ''2026-01-27T16:44:10.000Z''),
       d_updatedAt = Some (lit ''2026-01-27T16:44:10.000Z'') \<rparr>"

definition item_215 :: "int ProductData" where
  "item_215 =
     \<lparr> d_id = 215, d_title = lit ''jacket'', d_slug = lit ''jacket'', d_price = 13,
       d_description = Some (lit ''red''),
       d_category = Some category_clothes,
       d_images = Some [lit ''https://placehold.co/600x400''],
       d_creationAt = Some (lit ''2026-01-27T21:34:17.000Z''),
       d_updatedAt = Some (lit ''2026-01-27T21:34:17.000Z'') \<rparr>"

definition category_electronics :: CategoryData where
  "category_electronics =
     \<lparr> dc_id = 2, dc_name = Some (lit ''Electronics''), dc_slug = lit ''electronics'',
       dc_image = lit ''https://i.imgur.com/ZANVnHE.jpeg'',
       dc_creationAt = Some (lit ''2026-01-27T11:46:15.000Z''),
       dc_updatedAt = Some (lit ''2026-01-27T11:46:15.000Z'') \<rparr>"

definition item_217 :: "int ProductData" where
  "item_217 =
     \<lparr> d_id = 217, d_title = lit ''88'', d_slug = lit ''88'', d_price = 99,
       d_description = Some (lit ''jhjhh''),
       d_category = Some category_electronics,
       d_images = Some [lit ''https://placehold.co/600x400''],
       d_creationAt = Some (lit ''2026-01-27T22:58:48.000Z''),
       d_updatedAt = Some (lit ''2026-01-27T22:58:48.000Z'') \<rparr>"

definition category_shoes :: CategoryData where
  "category_shoes =
     \<lparr> dc_id = 4, dc_name = Some (lit ''Shoes''), dc_slug = lit ''shoes'',
       dc_image = lit ''https://i.imgur.com/qNOjJje.jpeg'',
       dc_creationAt = Some (lit ''2026-01-27T11:46:15.000Z''),
       dc_updatedAt = Some (lit ''2026-01-27T11:46:15.000Z'') \<rparr>"

definition item_218 :: "int ProductData" where
  "item_218 =
     \<lparr> d_id = 218, d_title = lit ''y'', d_slug = lit ''y'', d_price = 55,
       d_description = Some (lit ''hh''),
       d_category = Some category_shoes,
       d_images = Some [lit ''https://placehold.co/600x400''],
       d_creationAt = Some (lit ''2026-01-27T22:59:15.000Z''),
       d_updatedAt = Some (lit ''2026-01-27T22:59:15.000Z'') \<rparr>"


text \<open>The objects the constructors build from these records, and a service holding
  four of them.\<close>

definition clothes :: Category where
  "clothes =
     \<lparr> c_id = 1, c_name = Some (lit ''Clothes''), c_slug = lit ''clothes'',
       c_image = lit ''https://i.imgur.com/QkIa5tT.jpeg'',
       c_creationAt = Date (Some (lit ''2026-01-27T11:46:15.000Z'')),
       c_updatedAt = Date (Some (lit ''2026-01-28T02:54:10.000Z'')) \<rparr>"

definition product_200 :: "int Product" where
  "product_200 =
     \<lparr> p_id = 200, p_title = lit ''Sweater'', p_slug = lit ''sweater'', p_price = 50,
       p_description = Some (lit ''Test sweater''),
       p_category = clothes,
       p_images = [lit ''https://placehold.co/600x400''],
       p_creationAt = Date (Some (lit ''2026-01-27T16:44:10.000Z'')),
       p_updatedAt = Date (Some (lit ''2026-01-27T16:44:10.000Z'')) \<rparr>"

definition product_215 :: "int Product" where
  "product_215 =
     \<lparr> p_id = 215, p_title = lit ''jacket'', p_slug = lit ''jacket'', p_price = 13,
       p_description = Some (lit ''red''),
       p_category = clothes,
       p_images = [lit ''https://placehold.co/600x400''],
       p_creationAt = Date (Some (lit ''2026-01-27T21:34:17.000Z'')),
       p_updatedAt = Date (Some (lit ''2026-01-27T21:34:17.000Z'')) \<rparr>"

definition electronics :: Category where
  "electronics =
     \<lparr> c_id = 2, c_name = Some (lit ''Electronics''), c_slug = lit ''electronics'',
       c_image = lit ''https://i.imgur.com/ZANVnHE.jpeg'',
       c_creationAt = Date (Some (lit ''2026-01-27T11:46:15.000Z'')),
       c_updatedAt = Date (Some (lit ''2026-01-27T11:46:15.000Z'')) \<rparr>"

definition product_217 :: "int Product" where
  "product_217 =
     \<lparr> p_id = 217, p_title = lit ''88'', p_slug = lit ''88'', p_price = 99,
       p_description = Some (lit ''jhjhh''),
       p_category = electronics,
       p_images = [lit ''https://placehold.co/600x400''],
       p_creationAt = Date (Some (lit ''2026-01-27T22:58:48.000Z'')),
       p_updatedAt = Date (Some (lit ''2026-01-27T22:58:48.000Z'')) \<rparr>"

definition shoes :: Category where
  "shoes =
     \<lparr> c_id = 4, c_name = Some (lit ''Shoes''), c_slug = lit ''shoes'',
       c_image = lit ''https://i.imgur.com/qNOjJje.jpeg'',
       c_creationAt = Date (Some (lit ''2026-01-27T11:46:15.000Z'')),
       c_updatedAt = Date (Some (lit ''2026-01-27T11:46:15.000Z'')) \<rparr>"

definition product_218 :: "int Product" where
  "product_218 =
     \<lparr> p_id = 218, p_title = lit ''y'', p_slug = lit ''y'', p_price = 55,
       p_description = Some (lit ''hh''),
       p_category = shoes,
       p_images = [lit ''https://placehold.co/600x400''],
       p_creationAt = Date (Some (lit ''2026-01-27T22:59:15.000Z'')),
       p_updatedAt = Date (Some (lit ''2026-01-27T22:59:15.000Z'')) \<rparr>"

definition sampleService :: "int ProductService" where
  "sampleService = \<lparr> products = [product_200, product_218, product_215, product_217] \<rparr>"


text \<open>A document with the two mount points of the page, \<open>productGrid\<close> and
  \<open>productCount\<close>, both still empty; a document without any element; and the
  application object built on the former.\<close>

definition sampleDocument :: Document where
  "sampleDocument =
     \<lparr> getElementById = (\<lambda>i. if i = lit ''productGrid'' then Some 0
                             else if i = lit ''productCount'' then Some 1 else None),
       contents = (\<lambda>el. Markup []) \<rparr>"

definition emptyDocument :: Document where
  "emptyDocument = \<lparr> getElementById = (\<lambda>i. None), contents = (\<lambda>el. Markup []) \<rparr>"

definition sampleApp :: "int ProductCatalogApp" where
  "sampleApp =
     \<lparr> productService = new_ProductService,
       productRenderer = \<lparr> container = 0 \<rparr>,
       productCountElement = Some 1 \<rparr>"

text \<open>A stand-in for the host's currency formatter.\<close>

definition sampleFormat :: "int \<Rightarrow> jsstring" where
  "sampleFormat n = Number_toString n @ lit '' US$''"

text \<open>A browser page loaded without a bundler: \<open>console\<close> exists, \<open>process\<close> is not
  declared.\<close>

definition browserEnv :: Env where
  "browserEnv = \<lparr> console_defined = True, process = Undeclared \<rparr>"

text \<open>A title that holds a quotation mark, and the record of product 200 without its
  \<open>category\<close> field.\<close>

definition quotedTitle :: jsstring where
  \<open>quotedTitle = lit ''x" onmouseover="alert(1)''\<close>

definition item_without_category :: "int ProductData" where
  "item_without_category = item_200 \<lparr> d_category := None \<rparr>"


section \<open>Facts about the data\<close>

lemma new_Product_items:
  "new_Product item_200 = Inr product_200"
  "new_Product item_215 = Inr product_215"
  "new_Product item_217 = Inr product_217"
  "new_Product item_218 = Inr product_218"
  by (simp_all add: new_Product_def new_Category_def
      item_200_def item_215_def item_217_def item_218_def
      product_200_def product_215_def product_217_def product_218_def
      category_clothes_def category_electronics_def category_shoes_def
      clothes_def electronics_def shoes_def)

lemma loadFromJson_sample:
  "loadFromJson new_ProductService [item_200, item_218, item_215, item_217] =
     (sampleService, Inr [product_200, product_218, product_215, product_217])"
  by (simp add: loadFromJson_def new_Product_items sampleService_def new_ProductService_def)


section \<open>Product\<close>

subsection \<open>The primary image\<close>

text \<open>
  C5, as the code has it: \<open>getPrimaryImage\<close> returns the first element of \<open>images\<close> when
  the sequence is non-empty and that element is a non-empty string, and the fixed
  placeholder URL in every other case.
\<close>

theorem getPrimaryImage_first_or_placeholder:
  "getPrimaryImage p =
     (if p_images p \<noteq> [] \<and> hd (p_images p) \<noteq> [] then hd (p_images p) else placeholderImage)"
  by (simp add: getPrimaryImage_def split: list.splits)

text \<open>
  C5 as stated fails: the record of product 200 with \<open>images: [""]\<close> is built into a
  Product whose \<open>images\<close> is non-empty, and \<open>getPrimaryImage\<close> returns the placeholder,
  not the first element.
\<close>

theorem getPrimaryImage_empty_string_counterexample:
  "new_Product (item_200 \<lparr> d_images := Some [lit ''''] \<rparr>) = Inr (product_200 \<lparr> p_images := [lit ''''] \<rparr>)
   \<and> p_images (product_200 \<lparr> p_images := [lit ''''] \<rparr>) \<noteq> []
   \<and> getPrimaryImage (product_200 \<lparr> p_images := [lit ''''] \<rparr>)
       \<noteq> hd (p_images (product_200 \<lparr> p_images := [lit ''''] \<rparr>))
   \<and> getPrimaryImage (product_200 \<lparr> p_images := [lit ''''] \<rparr>) = placeholderImage"
  by (simp add: getPrimaryImage_def placeholderImage_def lit_def new_Product_def new_Category_def
      item_200_def product_200_def category_clothes_def clothes_def)

text \<open>
  C10: a raw record without an \<open>images\<close> field (and with a category, so that the
  constructor returns) is built into a Product whose \<open>images\<close> is the empty sequence,
  and \<open>getPrimaryImage\<close> on it returns the placeholder URL.
\<close>

theorem absent_images_give_placeholder:
  "d_images data = None \<Longrightarrow> d_category data = Some c \<Longrightarrow>
     (\<exists>p. new_Product data = Inr p \<and> p_images p = [] \<and> getPrimaryImage p = placeholderImage)"
  by (simp add: new_Product_def new_Category_def getPrimaryImage_def)

text \<open>C10 at the record of product 200 with its \<open>images\<close> field removed.\<close>

theorem absent_images_give_placeholder_witness:
  "d_images (item_200 \<lparr> d_images := None \<rparr>) = None
   \<and> d_category (item_200 \<lparr> d_images := None \<rparr>) = Some category_clothes
   \<and> (\<exists>p. new_Product (item_200 \<lparr> d_images := None \<rparr>) = Inr p \<and> p_images p = []
          \<and> getPrimaryImage p = placeholderImage)"
proof -
  have a: "d_images (item_200 \<lparr> d_images := None \<rparr>) = None" by simp
  have b: "d_category (item_200 \<lparr> d_images := None \<rparr>) = Some category_clothes"
    by (simp add: item_200_def)
  from absent_images_give_placeholder [OF a b] a b show ?thesis by blast
qed

subsection \<open>The short description\<close>

lemma substring_prefix:
  "0 \<le> m \<Longrightarrow> substring s 0 m = take (nat m) s"
  by (auto simp: substring_def Let_def min_def max_def)

text \<open>
  C2: for a non-negative integer \<open>maxLength\<close>, \<open>getShortDescription\<close> returns the
  placeholder when the description is absent or empty; the description itself when its
  length is at most \<open>maxLength\<close>; otherwise exactly its first \<open>maxLength\<close> code units
  followed by \<open>...\<close>; and just \<open>...\<close> for \<open>maxLength = 0\<close> on a non-empty description.
\<close>

theorem getShortDescription_spec:
  "0 \<le> maxLength \<Longrightarrow>
   (p_description p = None \<or> p_description p = Some [] \<longrightarrow>
      getShortDescription p (Some maxLength) = lit ''No description available'')
   \<and> (\<forall>d. p_description p = Some d \<and> d \<noteq> [] \<and> int (length d) \<le> maxLength \<longrightarrow>
          getShortDescription p (Some maxLength) = d)
   \<and> (\<forall>d. p_description p = Some d \<and> maxLength < int (length d) \<longrightarrow>
          getShortDescription p (Some maxLength) = take (nat maxLength) d @ lit ''...''
          \<and> int (length (take (nat maxLength) d)) = maxLength)
   \<and> (\<forall>d. p_description p = Some d \<and> d \<noteq> [] \<and> maxLength = 0 \<longrightarrow>
          getShortDescription p (Some maxLength) = lit ''...'')"
  by (auto simp: getShortDescription_def substring_prefix)

text \<open>
  C2 on product 200, whose description \<open>Test sweater\<close> has 12 code units, for the limits
  12, 4 and 0, and on the same product without a description.
\<close>

theorem getShortDescription_spec_witness:
  "getShortDescription (product_200 \<lparr> p_description := None \<rparr>) (Some 5) = lit ''No description available''
   \<and> getShortDescription product_200 (Some 12) = lit ''Test sweater''
   \<and> getShortDescription product_200 (Some 4) = lit ''Test...''
   \<and> getShortDescription product_200 (Some 0) = lit ''...''"
proof -
  have d: "p_description product_200 = Some (lit ''Test sweater'')"
    by (simp add: product_200_def)
  have l: "length (lit ''Test sweater'') = 12" "lit ''Test sweater'' \<noteq> []"
    by (simp_all add: lit_def)
  have t: "take 4 (lit ''Test sweater'') @ lit ''...'' = lit ''Test...''"
    by (simp add: lit_def)
  from getShortDescription_spec [of 5 "product_200 \<lparr> p_description := None \<rparr>"]
  have 1: "getShortDescription (product_200 \<lparr> p_description := None \<rparr>) (Some 5)
             = lit ''No description available''"
    by simp
  from getShortDescription_spec [of 12 product_200] d l
  have 2: "getShortDescription product_200 (Some 12) = lit ''Test sweater''"
    by simp
  from getShortDescription_spec [of 4 product_200] d l t
  have 3: "getShortDescription product_200 (Some 4) = lit ''Test...''"
    by simp
  from getShortDescription_spec [of 0 product_200] d l
  have 4: "getShortDescription product_200 (Some 0) = lit ''...''"
    by simp
  from 1 2 3 4 show ?thesis by blast
qed


section \<open>Service\<close>

subsection \<open>Loading\<close>

text \<open>
  C4: loading the same records a second time leaves the index as the first load left
  it: the same count, the same \<open>findById\<close> result for every id, the same sequence, and
  the second call returns what the first returned. This holds as well when the load
  raises (then neither call assigns \<open>products\<close>).
\<close>

theorem loadFromJson_twice_same_index:
  "(let s1 = fst (loadFromJson s jsonData); s2 = fst (loadFromJson s1 jsonData)
    in getProductCount s2 = getProductCount s1
       \<and> (\<forall>i. findById s2 i = findById s1 i)
       \<and> getAllProducts s2 = getAllProducts s1
       \<and> snd (loadFromJson s1 jsonData) = snd (loadFromJson s jsonData))"
  by (simp add: loadFromJson_def Let_def split: sum.splits)

subsection \<open>Filtering by category\<close>

lemma count_list_filter_eq:
  "count_list (filter P xs) x = (if P x then count_list xs x else 0)"
  by (induction xs) auto

text \<open>
  C6: \<open>filterByCategory\<close> returns a subsequence of the loaded Products, in their order;
  every Product in it has the given category slug; every Product with that slug is kept,
  as often as it occurs; and when no Product has the slug the result is the empty
  sequence.
\<close>

theorem filterByCategory_spec:
  "subseq (filterByCategory s slug) (products s)
   \<and> (\<forall>p \<in> set (filterByCategory s slug). c_slug (p_category p) = slug)
   \<and> (\<forall>p. c_slug (p_category p) = slug \<longrightarrow>
          count_list (filterByCategory s slug) p = count_list (products s) p)
   \<and> ((\<forall>p \<in> set (products s). c_slug (p_category p) \<noteq> slug) \<longrightarrow> filterByCategory s slug = [])"
  by (simp add: filterByCategory_def count_list_filter_eq filter_empty_conv)

text \<open>
  C6 on the sample service: the slug \<open>clothes\<close> selects products 200 and 215, in that
  order, and the slug \<open>toys\<close>, which no product has, gives the empty sequence.
\<close>

theorem filterByCategory_spec_witness:
  "filterByCategory sampleService (lit ''clothes'') = [product_200, product_215]
   \<and> subseq [product_200, product_215] (products sampleService)
   \<and> filterByCategory sampleService (lit ''toys'') = []"
proof -
  have slugs:
    "c_slug (p_category product_200) = lit ''clothes''"
    "c_slug (p_category product_215) = lit ''clothes''"
    "c_slug (p_category product_217) = lit ''electronics''"
    "c_slug (p_category product_218) = lit ''shoes''"
    by (simp_all add: product_200_def product_215_def product_217_def product_218_def
        clothes_def electronics_def shoes_def)
  have ne: "lit ''shoes'' \<noteq> lit ''clothes''" "lit ''electronics'' \<noteq> lit ''clothes''"
    "lit ''clothes'' \<noteq> lit ''toys''" "lit ''shoes'' \<noteq> lit ''toys''"
    "lit ''electronics'' \<noteq> lit ''toys''"
    by (simp_all add: lit_def)
  have e: "filterByCategory sampleService (lit ''clothes'') = [product_200, product_215]"
    by (simp add: filterByCategory_def sampleService_def slugs ne)
  have none: "\<forall>p \<in> set (products sampleService). c_slug (p_category p) \<noteq> lit ''toys''"
    by (simp add: sampleService_def slugs ne)
  from filterByCategory_spec [of sampleService "lit ''clothes''"]
  have 1: "subseq [product_200, product_215] (products sampleService)"
    unfolding e by blast
  from filterByCategory_spec [of sampleService "lit ''toys''"] none
  have 2: "filterByCategory sampleService (lit ''toys'') = []"
    by blast
  from e 1 2 show ?thesis by blast
qed

subsection \<open>Unique categories\<close>

lemma find_snoc:
  "find P (xs @ [x]) =
     (case find P xs of Some y \<Rightarrow> Some y | None \<Rightarrow> if P x then Some x else None)"
  by (induction xs) auto

lemma find_None_iff_set: "find P xs = None \<longleftrightarrow> (\<forall>x \<in> set xs. \<not> P x)"
  by (induction xs) auto

lemma categoryMap_step:
  "(if \<not> Map_has m k then Map_set m k v else m) =
     (if k \<in> set (map fst m) then m else m @ [(k, v)])"
  by (simp add: Map_has_def Map_set_def)

text \<open>The keys of the map after the scan: the category ids, each at its first
  occurrence.\<close>

lemma categoryMap_keys:
  "map fst (foldl (\<lambda>categoryMap product.
                 if \<not> Map_has categoryMap (c_id (p_category product))
                 then Map_set categoryMap (c_id (p_category product)) (p_category product)
                 else categoryMap) [] ps)
   = rev (remdups (rev (map (\<lambda>p. c_id (p_category p)) ps)))"
  (is "map fst (?F ps) = ?R ps")
proof (induction ps rule: rev_induct)
  case Nil
  show ?case by simp
next
  case (snoc p ps)
  let ?k = "c_id (p_category p)"
  have F: "?F (ps @ [p]) =
      (if ?k \<in> set (map fst (?F ps)) then ?F ps else ?F ps @ [(?k, p_category p)])"
    by (simp only: foldl_append foldl.simps categoryMap_step)
  have R: "?R (ps @ [p]) =
      (if ?k \<in> set (map (\<lambda>p. c_id (p_category p)) ps) then ?R ps else ?R ps @ [?k])"
    by simp
  have S: "set (map fst (?F ps)) = set (map (\<lambda>p. c_id (p_category p)) ps)"
    by (simp only: snoc.IH set_rev set_remdups)
  show ?case
    unfolding F R S using snoc.IH by (simp del: set_map)
qed

text \<open>Every entry of the map is keyed by its category's id and holds the category of
  the first product with that id.\<close>

lemma categoryMap_entries:
  "\<forall>e \<in> set (foldl (\<lambda>categoryMap product.
                 if \<not> Map_has categoryMap (c_id (p_category product))
                 then Map_set categoryMap (c_id (p_category product)) (p_category product)
                 else categoryMap) [] ps).
      fst e = c_id (snd e)
      \<and> map_option p_category (find (\<lambda>p. c_id (p_category p) = fst e) ps) = Some (snd e)"
  (is "\<forall>e \<in> set (?F ps). ?Q e ps")
proof (induction ps rule: rev_induct)
  case Nil
  show ?case by simp
next
  case (snoc p ps)
  let ?k = "c_id (p_category p)"
  have F: "?F (ps @ [p]) =
      (if ?k \<in> set (map fst (?F ps)) then ?F ps else ?F ps @ [(?k, p_category p)])"
    by (simp only: foldl_append foldl.simps categoryMap_step)
  have S: "set (map fst (?F ps)) = set (map (\<lambda>p. c_id (p_category p)) ps)"
    by (simp only: categoryMap_keys set_rev set_remdups)
  have old: "?Q e (ps @ [p])" if "e \<in> set (?F ps)" for e
    using snoc.IH that by (auto simp: find_snoc)
  have new: "?Q (?k, p_category p) (ps @ [p])"
    if "?k \<notin> set (map (\<lambda>p. c_id (p_category p)) ps)"
  proof -
    from that have "find (\<lambda>q. c_id (p_category q) = ?k) ps = None"
      unfolding find_None_iff_set by (metis (mono_tags, lifting) image_eqI list.set_map)
    then show ?thesis by (simp add: find_snoc)
  qed
  show ?case
    unfolding F S using old new by (auto simp del: set_map)
qed

text \<open>
  C3: the ids of the categories returned by \<open>getUniqueCategories\<close> are pairwise distinct
  and are exactly the category ids occurring among the loaded Products; each returned
  Category is the category of the first Product, in scan order, with that category id;
  and the returned sequence is in first-seen order: its ids are the products' category
  ids with every repetition after the first occurrence dropped.
\<close>

theorem getUniqueCategories_first_seen:
  "distinct (map c_id (getUniqueCategories s))
   \<and> set (map c_id (getUniqueCategories s)) = set (map (\<lambda>p. c_id (p_category p)) (products s))
   \<and> (\<forall>c \<in> set (getUniqueCategories s).
         map_option p_category (find (\<lambda>p. c_id (p_category p) = c_id c) (products s)) = Some c)
   \<and> map c_id (getUniqueCategories s)
       = rev (remdups (rev (map (\<lambda>p. c_id (p_category p)) (products s))))"
proof -
  let ?m = "foldl (\<lambda>categoryMap product.
                 if \<not> Map_has categoryMap (c_id (p_category product))
                 then Map_set categoryMap (c_id (p_category product)) (p_category product)
                 else categoryMap) [] (products s)"
  have U: "getUniqueCategories s = map snd ?m"
    by (simp add: getUniqueCategories_def Map_values_def)
  have E: "\<forall>e \<in> set ?m. fst e = c_id (snd e)
      \<and> map_option p_category (find (\<lambda>p. c_id (p_category p) = fst e) (products s)) = Some (snd e)"
    by (rule categoryMap_entries)
  have K: "map fst ?m = rev (remdups (rev (map (\<lambda>p. c_id (p_category p)) (products s))))"
    by (rule categoryMap_keys)
  have I: "map c_id (getUniqueCategories s) = map fst ?m"
    unfolding U using E by (simp add: comp_def)
  have order: "map c_id (getUniqueCategories s)
      = rev (remdups (rev (map (\<lambda>p. c_id (p_category p)) (products s))))"
    by (simp only: I K)
  have first: "\<forall>c \<in> set (getUniqueCategories s).
         map_option p_category (find (\<lambda>p. c_id (p_category p) = c_id c) (products s)) = Some c"
    unfolding U using E by auto
  have d: "distinct (map c_id (getUniqueCategories s))"
    by (simp only: order distinct_rev distinct_remdups)
  have st: "set (map c_id (getUniqueCategories s))
      = set (map (\<lambda>p. c_id (p_category p)) (products s))"
    by (simp only: order set_rev set_remdups)
  from d st first order show ?thesis by blast
qed

text \<open>
  C3 on the sample service, whose products have the category ids 1, 4, 1, 2: the
  result is the three categories with ids 1, 4, 2, in that order.
\<close>

theorem getUniqueCategories_first_seen_witness:
  "map c_id (getUniqueCategories sampleService) = [1, 4, 2]
   \<and> getUniqueCategories sampleService = [clothes, shoes, electronics]"
proof -
  have ids: "map (\<lambda>p. c_id (p_category p)) (products sampleService) = [1, 4, 1, 2]"
    by (simp add: sampleService_def product_200_def product_215_def product_217_def
        product_218_def clothes_def electronics_def shoes_def)
  from getUniqueCategories_first_seen [of sampleService]
  have 1: "map c_id (getUniqueCategories sampleService) = [1, 4, 2]"
    unfolding ids by simp
  have 2: "getUniqueCategories sampleService = [clothes, shoes, electronics]"
    by (simp add: getUniqueCategories_def sampleService_def Map_values_def Map_has_def
        Map_set_def product_200_def product_215_def product_217_def product_218_def
        clothes_def electronics_def shoes_def)
  from 1 2 show ?thesis by blast
qed


section \<open>Renderer\<close>

subsection \<open>Escaping\<close>

lemma escapeHtml_tag_opener:
  "escapeHtml (lit ''<script>'') = lit ''&lt;script&gt;''"
  by (simp add: escapeHtml_def serializeText_def escapeCodeUnit_def lit_def)

lemma escapeHtml_quotedTitle: "escapeHtml quotedTitle = quotedTitle"
  by (simp add: escapeHtml_def serializeText_def escapeCodeUnit_def lit_def quotedTitle_def)

text \<open>The card holds the escaped title as the value of the \<open>alt\<close> attribute, between
  two quotation marks.\<close>

lemma createProductCardHtml_alt:
  \<open>\<exists>before after. createProductCardHtml format p =
       before @ lit ''alt="'' @ escapeHtml (p_title p) @ lit ''"'' @ after\<close>
proof -
  have s1: \<open>lit ''" \<newline>                        alt="''
      = lit ''" \<newline>                        '' @ lit ''alt="''\<close>
    by (simp add: lit_def)
  have s2: \<open>lit ''"\<newline>                        loading="lazy"\<newline>''
      = lit ''"'' @ lit ''\<newline>                        loading="lazy"\<newline>''\<close>
    by (simp add: lit_def)
  show ?thesis
    unfolding createProductCardHtml_def s1 s2 append_assoc
    by (metis append_assoc)
qed

text \<open>
  C1 fails on the code: \<open>escapeHtml\<close> leaves a quotation mark as it is, so the card of
  product 200 with the title \<open>x" onmouseover="alert(1)\<close> contains
  \<open>alt="x" onmouseover="alert(1)"\<close>: the title's quotation mark ends the \<open>alt\<close> attribute
  and the rest of the title is read as a new attribute.
\<close>

theorem createProductCardHtml_quote_ends_attribute:
  \<open>escapeHtml quotedTitle = lit ''x" onmouseover="alert(1)''
   \<and> (\<exists>before after.
         createProductCardHtml format (product_200 \<lparr> p_title := quotedTitle \<rparr>) =
           before @ lit ''alt="x" onmouseover="alert(1)"'' @ after)\<close>
proof -
  have e: \<open>escapeHtml quotedTitle = lit ''x" onmouseover="alert(1)''\<close>
    unfolding escapeHtml_quotedTitle by (simp add: quotedTitle_def)
  have j: \<open>lit ''alt="'' @ quotedTitle @ lit ''"'' @ after
      = lit ''alt="x" onmouseover="alert(1)"'' @ after\<close> for after
    by (simp add: quotedTitle_def lit_def)
  from createProductCardHtml_alt [of format "product_200 \<lparr> p_title := quotedTitle \<rparr>"]
  obtain before after where
    \<open>createProductCardHtml format (product_200 \<lparr> p_title := quotedTitle \<rparr>) =
       before @ lit ''alt="'' @ quotedTitle @ lit ''"'' @ after\<close>
    by (auto simp: escapeHtml_quotedTitle)
  then have \<open>createProductCardHtml format (product_200 \<lparr> p_title := quotedTitle \<rparr>) =
       before @ lit ''alt="x" onmouseover="alert(1)"'' @ after\<close>
    by (simp only: j)
  with e show ?thesis by blast
qed

subsection \<open>Rendering the list\<close>

text \<open>
  C8: after \<open>renderProducts\<close> the container holds the fixed "no products" markup when
  the sequence is empty, and otherwise the cards of the products, concatenated in input
  order. What it holds does not depend on what the document held before; no other
  element changes; and the "no products" markup is not what \<open>showError\<close> writes, whatever
  the message.
\<close>

theorem renderProducts_replaces_content:
  "contents (renderProducts format r prods doc) (container r) =
     Markup (if prods = [] then noProductsHtml
             else concat (map (createProductCardHtml format) prods))
   \<and> contents (renderProducts format r prods doc) (container r) =
       contents (renderProducts format r prods doc') (container r)
   \<and> (\<forall>el. el \<noteq> container r \<longrightarrow>
          contents (renderProducts format r prods doc) el = contents doc el)
   \<and> getElementById (renderProducts format r prods doc) = getElementById doc
   \<and> (\<forall>message d. Markup noProductsHtml \<noteq> contents (showError r message d) (container r))"
  by (simp add: renderProducts_def set_innerHTML_def showError_def noProductsHtml_def lit_def)

text \<open>
  C8 on the sample document, whose container is element 0: rendering no product shows
  the "no products" markup, rendering products 200 and 215 shows their two cards in that
  order, and the count element (element 1) keeps its content.
\<close>

theorem renderProducts_replaces_content_witness:
  "contents (renderProducts sampleFormat \<lparr> container = 0 \<rparr> [] sampleDocument) 0
     = Markup noProductsHtml
   \<and> contents (renderProducts sampleFormat \<lparr> container = 0 \<rparr> [product_200, product_215]
        sampleDocument) 0
     = Markup (createProductCardHtml sampleFormat product_200
               @ createProductCardHtml sampleFormat product_215)
   \<and> contents (renderProducts sampleFormat \<lparr> container = 0 \<rparr> [product_200, product_215]
        sampleDocument) 1
     = contents sampleDocument 1"
proof -
  from renderProducts_replaces_content
    [of sampleFormat "\<lparr> container = 0 \<rparr>" "[]" sampleDocument sampleDocument]
  have 1: "contents (renderProducts sampleFormat \<lparr> container = 0 \<rparr> [] sampleDocument) 0
     = Markup noProductsHtml"
    by simp
  from renderProducts_replaces_content
    [of sampleFormat "\<lparr> container = 0 \<rparr>" "[product_200, product_215]" sampleDocument sampleDocument]
  have 2: "contents (renderProducts sampleFormat \<lparr> container = 0 \<rparr> [product_200, product_215]
        sampleDocument) 0
     = Markup (createProductCardHtml sampleFormat product_200
               @ createProductCardHtml sampleFormat product_215)"
    and 3: "contents (renderProducts sampleFormat \<lparr> container = 0 \<rparr> [product_200, product_215]
        sampleDocument) 1
     = contents sampleDocument 1"
    by simp_all
  from 1 2 3 show ?thesis by blast
qed


section \<open>Application controller\<close>

subsection \<open>Construction\<close>

text \<open>
  C9: when \<open>productGrid\<close> does not resolve to an element, constructing the controller
  raises the error \<open>Container with id "productGrid" not found\<close>, and the listener ends
  with that error, the document and the console as they were (nothing was rendered).
  When it resolves, construction returns a controller whose renderer holds that element
  and whose service is empty. Construction returns a controller only when it resolves.
\<close>

theorem container_must_resolve:
  \<open>(getElementById doc (lit ''productGrid'') = None \<longrightarrow>
      (new_ProductCatalogApp doc :: error + 'n ProductCatalogApp)
        = Inl (Error (lit ''Container with id "productGrid" not found''))
      \<and> onDOMContentLoaded env (format :: 'n \<Rightarrow> jsstring) PRODUCT_DATA (doc, log)
        = ((doc, log), Inl (Error (lit ''Container with id "productGrid" not found''))))
   \<and> (\<forall>el. getElementById doc (lit ''productGrid'') = Some el \<longrightarrow>
         (\<exists>a :: 'n ProductCatalogApp. new_ProductCatalogApp doc = Inr a
             \<and> container (productRenderer a) = el \<and> products (productService a) = []))
   \<and> ((\<exists>a :: 'n ProductCatalogApp. new_ProductCatalogApp doc = Inr a) \<longrightarrow>
         getElementById doc (lit ''productGrid'') \<noteq> None)\<close>
  by (auto simp: new_ProductCatalogApp_def new_ProductRenderer_def onDOMContentLoaded_def
       new_ProductService_def lit_def split: option.splits)

text \<open>
  C9 on a document without elements, where construction raises and the listener
  changes nothing, and on the sample document, where construction returns a controller
  on element 0.
\<close>

theorem container_must_resolve_witness:
  \<open>(new_ProductCatalogApp emptyDocument :: error + int ProductCatalogApp)
      = Inl (Error (lit ''Container with id "productGrid" not found''))
   \<and> onDOMContentLoaded browserEnv sampleFormat [item_200] (emptyDocument, [])
      = ((emptyDocument, []), Inl (Error (lit ''Container with id "productGrid" not found'')))
   \<and> (\<exists>a :: int ProductCatalogApp. new_ProductCatalogApp sampleDocument = Inr a
         \<and> container (productRenderer a) = 0 \<and> products (productService a) = [])\<close>
proof -
  have n: "getElementById emptyDocument (lit ''productGrid'') = None"
    by (simp add: emptyDocument_def)
  have r: "getElementById sampleDocument (lit ''productGrid'') = Some 0"
    by (simp add: sampleDocument_def)
  from container_must_resolve
    [where ?'n = int, of emptyDocument browserEnv sampleFormat "[item_200]" "[]"] n
  have 1: \<open>(new_ProductCatalogApp emptyDocument :: error + int ProductCatalogApp)
      = Inl (Error (lit ''Container with id "productGrid" not found''))
   \<and> onDOMContentLoaded browserEnv sampleFormat [item_200] (emptyDocument, [])
      = ((emptyDocument, []), Inl (Error (lit ''Container with id "productGrid" not found'')))\<close>
    by blast
  from container_must_resolve
    [where ?'n = int, of sampleDocument browserEnv sampleFormat "[item_200]" "[]"] r
  have 2: "\<exists>a :: int ProductCatalogApp. new_ProductCatalogApp sampleDocument = Inr a
         \<and> container (productRenderer a) = 0 \<and> products (productService a) = []"
    by blast
  from 1 2 show ?thesis by blast
qed

subsection \<open>The run\<close>

lemma escapeHtml_errorMessage: "escapeHtml errorMessage = errorMessage"
  by (simp add: escapeHtml_def serializeText_def escapeCodeUnit_def errorMessage_def lit_def)

text \<open>When the load raises, the container ends with the error view, whose markup holds
  the fixed message and nothing of the error; the error reaches the console's log or
  nothing at all; and \<open>init\<close> returns normally unless \<open>console\<close> exists and \<open>process\<close> is
  not declared, in which case \<open>handleError\<close> itself raises a ReferenceError.\<close>

lemma init_load_raises:
  assumes "map_new_Product PRODUCT_DATA = Inl err"
  shows \<open>contents (document (fst (init env format PRODUCT_DATA st)))
            (container (productRenderer (app st)))
          = Markup (lit ''\<newline>            <p style="text-align: center; color: var(--color-error); padding: 2rem;">\<newline>''
                    @ lit ''                '' @ [0x274C] @ lit '' '' @ errorMessage
                    @ lit ''\<newline>            </p>\<newline>        '')\<close>
    and "console (fst (init env format PRODUCT_DATA st)) =
          (if console_defined env \<and> process env \<noteq> Undeclared
              \<and> process env \<noteq> NODE_ENV (Some (lit ''production''))
           then console st @ [err] else console st)"
    and "snd (init env format PRODUCT_DATA st) =
          (if console_defined env \<and> process env = Undeclared then Inl ReferenceError
           else Inr ())"
    and "app (fst (init env format PRODUCT_DATA st)) = app st"
  using assms
  by (auto simp: init_def loadFromJson_def handleError_def Let_def showError_def
      showLoading_def set_innerHTML_def escapeHtml_errorMessage split: process_binding.splits)

text \<open>When the load returns, so does \<open>init\<close>, and the container holds the list view.\<close>

lemma init_load_returns:
  assumes "map_new_Product PRODUCT_DATA = Inr prods"
  shows "snd (init env format PRODUCT_DATA st) = Inr ()"
    and "contents (document (fst (init env format PRODUCT_DATA st)))
            (container (productRenderer (app st)))
          = Markup (if prods = [] then noProductsHtml
                    else concat (map (createProductCardHtml format) prods))"
    and "console (fst (init env format PRODUCT_DATA st)) = console st"
    and "products (productService (app (fst (init env format PRODUCT_DATA st)))) = prods"
  using assms
  by (auto simp: init_def loadFromJson_def Let_def renderProducts_def set_innerHTML_def
      updateProductCount_def set_textContent_def showLoading_def split: option.splits)

lemma map_new_Product_item_without_category:
  "map_new_Product [item_without_category] = Inl TypeError"
  by (simp add: item_without_category_def new_Product_def new_Category_def)

text \<open>
  C7 fails on the code in a browser page where \<open>process\<close> is not declared. A record
  without a category makes the load raise a TypeError; \<open>init\<close> catches it and shows the
  error view with the fixed message, but \<open>handleError\<close> then evaluates
  \<open>process?.env?.NODE_ENV\<close> and raises a ReferenceError, which leaves \<open>init\<close> uncaught;
  the TypeError is never logged.
\<close>

theorem init_handleError_raises_in_browser:
  \<open>snd (loadFromJson (productService (app st)) [item_without_category]) = Inl TypeError
   \<and> snd (init browserEnv format [item_without_category] st) = Inl ReferenceError
   \<and> console (fst (init browserEnv format [item_without_category] st)) = console st
   \<and> contents (document (fst (init browserEnv format [item_without_category] st)))
         (container (productRenderer (app st)))
       = contents (showError (productRenderer (app st)) errorMessage (document st))
           (container (productRenderer (app st)))\<close>
proof -
  note r = init_load_raises [OF map_new_Product_item_without_category, of browserEnv format st]
  have 0: "snd (loadFromJson (productService (app st)) [item_without_category]) = Inl TypeError"
    unfolding loadFromJson_def map_new_Product_item_without_category by simp
  have 1: "snd (init browserEnv format [item_without_category] st) = Inl ReferenceError"
    using r(3) by (simp add: browserEnv_def)
  have 2: "console (fst (init browserEnv format [item_without_category] st)) = console st"
    using r(2) by (simp add: browserEnv_def)
  have 3: "contents (document (fst (init browserEnv format [item_without_category] st)))
         (container (productRenderer (app st)))
       = contents (showError (productRenderer (app st)) errorMessage (document st))
           (container (productRenderer (app st)))"
    unfolding r(1) by (simp add: showError_def set_innerHTML_def escapeHtml_errorMessage)
  from 0 1 2 3 show ?thesis by blast
qed

end
